theory Spec2Isabelle
  imports Main "HOL-Library.AList" "HOL-Library.Word"
begin

section \<open>Relay\_Control\_One\_Ch.py: a shallow embedding\<close>

text \<open>
  The program discovers USB relay boards among the serial ports, switches a relay by
  writing a two-byte frame to the selected port, and keeps one description per relay in
  a JSON file. The embedding follows the source function by function. What the source
  leaves to its libraries is made explicit:
  \<^item> a Python \<open>dict\<close> is an association list in insertion order; \<open>d[k] = v\<close> is
    \<open>AList.update k v d\<close> (in place, or appended when \<open>k\<close> is new), \<open>del d[k]\<close> is
    \<open>AList.delete k d\<close>, \<open>d[k]\<close> is \<open>map_of d k\<close> (\<open>None\<close>: \<open>KeyError\<close>);
  \<^item> the outside of the process is a record \<open>world\<close>: the files, the byte strings handed
    to \<open>ser.write\<close>, the message boxes shown;
  \<^item> an exception is the left summand of a result;
  \<^item> how the serial layer behaves during one call is a parameter (\<open>serial_outcome\<close>),
    and so are \<open>json.load\<close> and \<open>json.dump\<close> (\<open>json_lib\<close>).
\<close>

subsection \<open>Constants and strings\<close>

definition DESCRIPTION_FILE :: string where
  "DESCRIPTION_FILE = ''relay_descriptions.json''"

definition PRODUCT_ID :: string where
  "PRODUCT_ID = ''6001''"

text \<open>Python's \<open>sub in s\<close> on strings: \<open>sub\<close> occurs in \<open>s\<close> as a contiguous block.\<close>

fun str_in :: "string \<Rightarrow> string \<Rightarrow> bool" where
  "str_in sub [] = (sub = [])"
| "str_in sub (c # cs) = (take (length sub) (c # cs) = sub \<or> str_in sub cs)"

text \<open>
  \<open>str.isspace\<close> on one character, and \<open>str.strip()\<close>. A \<open>char\<close> is read as the
  code point of its number, so the table is Python's whitespace below 256: tab, line
  feed, vertical tab, form feed, carriage return, the separators 28 to 31, space,
  next line (133) and no-break space (160).
\<close>

definition isspace :: "char \<Rightarrow> bool" where
  "isspace c = (of_char c \<in> {9, 10, 11, 12, 13, 28, 29, 30, 31, 32, 133, 160 :: nat})"

definition strip :: "string \<Rightarrow> string" where
  "strip s = rev (dropWhile isspace (rev (dropWhile isspace s)))"

subsection \<open>Serial ports\<close>

text \<open>
  The fields of pyserial's \<open>ListPortInfo\<close> that the program reads. \<open>serial_number\<close> is
  \<open>None\<close> for a device that reports none.
\<close>

type_synonym serial = "string option"

record port_info =
  device :: string
  hwid :: string
  serial_number :: serial

text \<open>\<open>find_relay_ports\<close>, with the result of \<open>comports()\<close> as its argument.\<close>

definition find_relay_ports :: "port_info list \<Rightarrow> (serial \<times> string) list" where
  "find_relay_ports ports =
     fold (\<lambda>port relays.
             if str_in PRODUCT_ID (hwid port)
             then AList.update (serial_number port) (device port) relays
             else relays)
          ports []"

subsection \<open>The world outside the process\<close>

datatype dialog = ShowError string string | ShowInfo string string

text \<open>
  \<open>files\<close> maps a path to the text of the file there; \<open>serial_writes\<close> lists, oldest
  first, the port and the bytes of every call of \<open>ser.write\<close>; \<open>dialogs\<close> lists the
  message boxes (title, message).
\<close>

record world =
  files :: "string \<rightharpoonup> string"
  serial_writes :: "(string \<times> 8 word list) list"
  dialogs :: "dialog list"

definition showerror :: "string \<Rightarrow> string \<Rightarrow> world \<Rightarrow> world" where
  "showerror title message w = w\<lparr>dialogs := dialogs w @ [ShowError title message]\<rparr>"

definition showinfo :: "string \<Rightarrow> string \<Rightarrow> world \<Rightarrow> world" where
  "showinfo title message w = w\<lparr>dialogs := dialogs w @ [ShowInfo title message]\<rparr>"

datatype exn = SerialException string | KeyError | JSONDecodeError

text \<open>\<open>str(e)\<close>, as the f-string of \<open>send_command\<close> formats the exception.\<close>

fun exn_str :: "exn \<Rightarrow> string" where
  "exn_str (SerialException msg) = msg"
| "exn_str KeyError = ''KeyError''"
| "exn_str JSONDecodeError = ''JSONDecodeError''"

subsection \<open>Sending a command\<close>

text \<open>
  What the serial layer does during one \<open>with serial.Serial(port, 9600, timeout=1)\<close>
  block: opening raises, or the port opens and \<open>write\<close> raises, or \<open>write\<close> returns.
  The string is the message of the exception.
\<close>

datatype serial_outcome = OpenFails string | WriteFails string | WriteOk

text \<open>The \<open>with\<close> block of \<open>send_command\<close>: open, one \<open>write\<close>, close.\<close>

definition serial_write ::
  "serial_outcome \<Rightarrow> string \<Rightarrow> 8 word list \<Rightarrow> world \<Rightarrow> (exn + unit) \<times> world" where
  "serial_write out port bs w =
     (case out of
        OpenFails msg \<Rightarrow> (Inl (SerialException msg), w)
      | WriteFails msg \<Rightarrow>
          (Inl (SerialException msg), w\<lparr>serial_writes := serial_writes w @ [(port, bs)]\<rparr>)
      | WriteOk \<Rightarrow> (Inr (), w\<lparr>serial_writes := serial_writes w @ [(port, bs)]\<rparr>))"

text \<open>
  \<open>send_command\<close>: the first component is what the caller receives, an exception or
  the returned value (\<open>None\<close>, here \<open>()\<close>).
\<close>

definition send_command ::
  "serial_outcome \<Rightarrow> string \<Rightarrow> bool \<Rightarrow> world \<Rightarrow> (exn + unit) \<times> world" where
  "send_command out port state w =
     (case serial_write out port (if state then [0xFF, 0x01] else [0xFF, 0x00]) w of
        (Inl e, w') \<Rightarrow>
          (Inr (), showerror ''Error'' (''Failed to send command: '' @ exn_str e) w')
      | (Inr u, w') \<Rightarrow> (Inr (), w'))"

text \<open>A run of calls, each with its own outcome, port and state.\<close>

fun send_commands :: "(serial_outcome \<times> string \<times> bool) list \<Rightarrow> world \<Rightarrow> world" where
  "send_commands [] w = w"
| "send_commands ((out, port, state) # calls) w =
     send_commands calls (snd (send_command out port state w))"

subsection \<open>The application object\<close>

text \<open>
  The fields of \<open>RelayControlApp\<close>. A widget is kept as the part of its state the
  program sets: \<open>relay_frames\<close> holds the text of the row's toggle button (the frame's
  first child), \<open>status_circles\<close> the fill colour of the circle, \<open>description_boxes\<close>
  the text of the box without the line end that Tk appends on \<open>get\<close>,
  \<open>selected_com_port\<close> the value of the \<open>StringVar\<close>.
\<close>

record app =
  relay_ports :: "(serial \<times> string) list"
  relay_frames :: "serial \<rightharpoonup> string"
  status_circles :: "serial \<rightharpoonup> string"
  relay_states :: "serial \<rightharpoonup> bool"
  description_boxes :: "serial \<rightharpoonup> string"
  relay_descriptions :: "(serial \<times> string) list"
  selected_com_port :: string

text \<open>
  The JSON library: \<open>json_load\<close> is \<open>json.load\<close> on the text of a file (\<open>None\<close>: it
  raises \<open>JSONDecodeError\<close>), \<open>json_dump\<close> is the text \<open>json.dump(d, f, indent=2)\<close>
  writes. A document is a dictionary from serial numbers to strings, the shape the
  program writes; nothing is assumed of the two functions, and a property that needs
  one to read back what the other wrote says so. Opening the file is taken to succeed
  whenever the file exists, and writing it always.
\<close>

record json_lib =
  json_load :: "string \<Rightarrow> (serial \<times> string) list option"
  json_dump :: "(serial \<times> string) list \<Rightarrow> string"

definition load_descriptions :: "json_lib \<Rightarrow> app \<Rightarrow> world \<Rightarrow> exn + app" where
  "load_descriptions J self w =
     (case files w DESCRIPTION_FILE of
        None \<Rightarrow> Inr self
      | Some text \<Rightarrow>
          (case json_load J text of
             None \<Rightarrow> Inl JSONDecodeError
           | Some d \<Rightarrow> Inr (self\<lparr>relay_descriptions := d\<rparr>)))"

definition save_descriptions :: "json_lib \<Rightarrow> app \<Rightarrow> world \<Rightarrow> world" where
  "save_descriptions J self w =
     w\<lparr>files := (files w)(DESCRIPTION_FILE \<mapsto> json_dump J (relay_descriptions self))\<rparr>"

text \<open>One pass of the row loop of \<open>create_ui\<close>, for the relay \<open>serial_num\<close>.\<close>

definition create_row :: "serial \<Rightarrow> app \<Rightarrow> app" where
  "create_row serial_num self =
     self\<lparr>status_circles := (status_circles self)(serial_num \<mapsto> ''red''),
          relay_states := (relay_states self)(serial_num \<mapsto> False),
          description_boxes := (description_boxes self)(serial_num \<mapsto>
            (case map_of (relay_descriptions self) serial_num of
               None \<Rightarrow> [] | Some text \<Rightarrow> text)),
          relay_frames := (relay_frames self)(serial_num \<mapsto> ''OFF'')\<rparr>"

text \<open>\<open>create_ui\<close>; \<open>ports\<close> is the result of its own call of \<open>comports()\<close>.\<close>

definition create_ui :: "port_info list \<Rightarrow> app \<Rightarrow> app" where
  "create_ui ports self =
     fold (\<lambda>(serial_num, port). create_row serial_num) (relay_ports self)
       (case ports of
          [] \<Rightarrow> self
        | p # ps \<Rightarrow> self\<lparr>selected_com_port := device p\<rparr>)"

text \<open>
  \<open>__init__\<close>: \<open>ports\<close> is what \<open>comports()\<close> returns to \<open>find_relay_ports\<close>, \<open>ports'\<close>
  what it returns to \<open>create_ui\<close>. An exception leaves no object.
\<close>

definition new_app :: "port_info list \<Rightarrow> app" where
  "new_app ports =
     \<lparr>relay_ports = find_relay_ports ports,
      relay_frames = Map.empty,
      status_circles = Map.empty,
      relay_states = Map.empty,
      description_boxes = Map.empty,
      relay_descriptions = [],
      selected_com_port = []\<rparr>"

definition init_app :: "json_lib \<Rightarrow> port_info list \<Rightarrow> port_info list \<Rightarrow> world \<Rightarrow> exn + app" where
  "init_app J ports ports' w =
     (case load_descriptions J (new_app ports) w of
        Inl e \<Rightarrow> Inl e
      | Inr self \<Rightarrow> Inr (create_ui ports' self))"

definition refresh_ports :: "port_info list \<Rightarrow> app \<Rightarrow> world \<Rightarrow> app \<times> world" where
  "refresh_ports ports self w =
     (self\<lparr>selected_com_port := (case ports of [] \<Rightarrow> [] | p # ps \<Rightarrow> device p)\<rparr>,
      showinfo ''Ports Refreshed'' ''Available COM ports updated.'' w)"

definition update_ui :: "serial \<Rightarrow> app \<Rightarrow> exn + app" where
  "update_ui serial_num self =
     (case relay_states self serial_num of
        None \<Rightarrow> Inl KeyError
      | Some state \<Rightarrow>
          (case status_circles self serial_num of
             None \<Rightarrow> Inl KeyError
           | Some circle \<Rightarrow>
               (case relay_frames self serial_num of
                  None \<Rightarrow> Inl KeyError
                | Some btn \<Rightarrow>
                    Inr (self\<lparr>status_circles := (status_circles self)(serial_num \<mapsto>
                                 (if state then ''green'' else ''red'')),
                              relay_frames := (relay_frames self)(serial_num \<mapsto>
                                 (if state then ''ON'' else ''OFF''))\<rparr>))))"

text \<open>
  \<open>toggle_relay\<close>; \<open>out\<close> is the outcome of the serial layer, used when a command is
  sent. \<open>Inl\<close>: the callback raised.
\<close>

definition toggle_relay ::
  "serial_outcome \<Rightarrow> serial \<Rightarrow> app \<Rightarrow> world \<Rightarrow> exn + app \<times> world" where
  "toggle_relay out serial_num self w =
     (case relay_states self serial_num of
        None \<Rightarrow> Inl KeyError
      | Some current_state \<Rightarrow>
          (let new_state = \<not> current_state;
               port = selected_com_port self
           in if port = []
              then Inr (self, showerror ''Error'' ''Please select a COM port first!'' w)
              else (case send_command out port new_state w of
                      (Inl e, w') \<Rightarrow> Inl e
                    | (Inr u, w') \<Rightarrow>
                        (case update_ui serial_num
                                (self\<lparr>relay_states :=
                                   (relay_states self)(serial_num \<mapsto> new_state)\<rparr>) of
                           Inl e \<Rightarrow> Inl e
                         | Inr self' \<Rightarrow> Inr (self', w')))))"

text \<open>\<open>str(serial_num)\<close>, as the f-string of \<open>save_description\<close> formats the key.\<close>

fun serial_str :: "serial \<Rightarrow> string" where
  "serial_str None = ''None''"
| "serial_str (Some s) = s"

definition save_description ::
  "json_lib \<Rightarrow> serial \<Rightarrow> app \<Rightarrow> world \<Rightarrow> exn + app \<times> world" where
  "save_description J serial_num self w =
     (case description_boxes self serial_num of
        None \<Rightarrow> Inl KeyError
      | Some content \<Rightarrow>
          (let text = strip (content @ [CHR 0x0A]);
               self' = self\<lparr>relay_descriptions :=
                         AList.update serial_num text (relay_descriptions self)\<rparr>
           in Inr (self',
                   showinfo ''Saved''
                     (''Description for Relay '' @ serial_str serial_num @ '' saved.'')
                     (save_descriptions J self' w))))"

definition clear_description ::
  "json_lib \<Rightarrow> serial \<Rightarrow> app \<Rightarrow> world \<Rightarrow> exn + app \<times> world" where
  "clear_description J serial_num self w =
     (case description_boxes self serial_num of
        None \<Rightarrow> Inl KeyError
      | Some content \<Rightarrow>
          (let self1 = self\<lparr>description_boxes := (description_boxes self)(serial_num \<mapsto> [])\<rparr>
           in if map_of (relay_descriptions self1) serial_num \<noteq> None
              then (let self2 = self1\<lparr>relay_descriptions :=
                                   AList.delete serial_num (relay_descriptions self1)\<rparr>
                    in Inr (self2, save_descriptions J self2 w))
              else Inr (self1, w)))"

subsection \<open>Observations and running states\<close>

text \<open>The port opened during the call, so \<open>write\<close> was called.\<close>

fun opened :: "serial_outcome \<Rightarrow> bool" where
  "opened (OpenFails msg) = False"
| "opened (WriteFails msg) = True"
| "opened WriteOk = True"

text \<open>
  What a start of the program reads from the file: \<open>load_descriptions\<close> on the object
  as \<open>__init__\<close> has just built it, then the field \<open>relay_descriptions\<close>.
\<close>

definition loaded_descriptions :: "json_lib \<Rightarrow> world \<Rightarrow> exn + (serial \<times> string) list" where
  "loaded_descriptions J w =
     (case load_descriptions J (new_app []) w of
        Inl e \<Rightarrow> Inl e
      | Inr self \<Rightarrow> Inr (relay_descriptions self))"

text \<open>
  The states of a running program: \<open>__init__\<close> returned, then any number of callbacks
  that returned, each with any outcome of the serial layer and any list of ports, and
  of edits of the user in the port selector and in the description boxes.
\<close>

inductive reachable :: "json_lib \<Rightarrow> app \<times> world \<Rightarrow> bool" for J :: json_lib where
  start: "init_app J ports ports' w = Inr self \<Longrightarrow> reachable J (self, w)"
| toggle: "reachable J (self, w) \<Longrightarrow> toggle_relay out serial_num self w = Inr (self', w')
    \<Longrightarrow> reachable J (self', w')"
| save: "reachable J (self, w) \<Longrightarrow> save_description J serial_num self w = Inr (self', w')
    \<Longrightarrow> reachable J (self', w')"
| clear: "reachable J (self, w) \<Longrightarrow> clear_description J serial_num self w = Inr (self', w')
    \<Longrightarrow> reachable J (self', w')"
| refresh: "reachable J (self, w) \<Longrightarrow> refresh_ports ports self w = (self', w')
    \<Longrightarrow> reachable J (self', w')"
| select: "reachable J (self, w) \<Longrightarrow> reachable J (self\<lparr>selected_com_port := port\<rparr>, w)"
| edit: "reachable J (self, w) \<Longrightarrow> description_boxes self serial_num \<noteq> None
    \<Longrightarrow> reachable J
          (self\<lparr>description_boxes := (description_boxes self)(serial_num \<mapsto> content)\<rparr>, w)"

text \<open>Every row shows the state it holds: colour and button text follow \<open>relay_states\<close>.\<close>

definition rows_show_state :: "app \<Rightarrow> bool" where
  "rows_show_state self =
     (\<forall>serial_num state. relay_states self serial_num = Some state \<longrightarrow>
        status_circles self serial_num = Some (if state then ''green'' else ''red'') \<and>
        relay_frames self serial_num = Some (if state then ''ON'' else ''OFF''))"

subsection \<open>Concrete inputs\<close>

text \<open>
  Two converters that report the same serial number, a port that is no relay board, a
  world with nothing in it, and the program started on it with the first converter
  attached.
\<close>

definition relay_a :: port_info where
  "relay_a = \<lparr>device = ''COM3'', hwid = ''USB VID:PID=0403:6001 SER=A50285BI'',
              serial_number = Some ''A50285BI''\<rparr>"



definition empty_world :: world where
  "empty_world = \<lparr>files = Map.empty, serial_writes = [], dialogs = []\<rparr>"

definition started :: app where
  "started =
     \<lparr>relay_ports = [(Some ''A50285BI'', ''COM3'')],
      relay_frames = [Some ''A50285BI'' \<mapsto> ''OFF''],
      status_circles = [Some ''A50285BI'' \<mapsto> ''red''],
      relay_states = [Some ''A50285BI'' \<mapsto> False],
      description_boxes = [Some ''A50285BI'' \<mapsto> []],
      relay_descriptions = [],
      selected_com_port = ''COM3''\<rparr>"

text \<open>
  The JSON library on the documents of the examples: the text of the empty object and
  the text \<open>json.dump\<close> writes with \<open>indent=2\<close> for the object of one entry. Every
  other text is taken not to be JSON, and every other dictionary to be written as the
  empty text: the examples use no other.
\<close>

definition pump_doc :: "(serial \<times> string) list" where
  "pump_doc = [(Some ''SN123'', ''Pump relay'')]"

definition pump_text :: string where
  "pump_text = ''{'' @ [CHR 0x0A] @ ''  '' @ [CHR 0x22] @ ''SN123'' @ [CHR 0x22] @ '': '' @
     [CHR 0x22] @ ''Pump relay'' @ [CHR 0x22] @ [CHR 0x0A] @ ''}''"

definition json_sample :: json_lib where
  "json_sample =
     \<lparr>json_load = (\<lambda>text. if text = ''{}'' then Some []
                           else if text = pump_text then Some pump_doc
                           else None),
      json_dump = (\<lambda>d. if d = [] then ''{}''
                         else if d = pump_doc then pump_text
                         else [])\<rparr>"

text \<open>
  Worlds whose description file holds text that is not JSON, and the object of one
  entry; the program with that entry loaded; the started program after the user has
  typed into the box of its row.
\<close>

definition broken_world :: world where
  "broken_world = \<lparr>files = [DESCRIPTION_FILE \<mapsto> ''{not json''], serial_writes = [], dialogs = []\<rparr>"

definition pump_world :: world where
  "pump_world = \<lparr>files = [DESCRIPTION_FILE \<mapsto> pump_text], serial_writes = [], dialogs = []\<rparr>"


definition typed_app :: app where
  "typed_app = started\<lparr>description_boxes :=
       [Some ''A50285BI'' \<mapsto> [CHR 0x20, CHR 0x09] @ ''Pump relay '' @ [CHR 0x0A, CHR 0x0A]]\<rparr>"

section \<open>Properties\<close>

subsection \<open>Substrings\<close>

text \<open>\<open>str_in\<close> is the substring test: some text before, the block, some text after.\<close>

lemma str_in_iff: "str_in sub s \<longleftrightarrow> (\<exists>pre post. s = pre @ sub @ post)"
proof (induction s)
  case Nil
  show ?case by auto
next
  case (Cons c cs)
  have "take (length sub) (c # cs) = sub \<longleftrightarrow> (\<exists>post. c # cs = sub @ post)"
    by (metis append_eq_conv_conj)
  moreover have "(\<exists>pre post. c # cs = pre @ sub @ post) \<longleftrightarrow>
      (\<exists>post. c # cs = sub @ post) \<or> (\<exists>pre post. cs = pre @ sub @ post)"
    apply (rule iffI)
    subgoal
      apply (elim exE)
      subgoal for pre post by (cases pre) auto
      done
    subgoal
      apply (elim disjE exE)
       apply (metis append_Nil)
      by (metis append_Cons)
    done
  ultimately show ?case using Cons.IH by simp
qed

subsection \<open>Discovery\<close>








subsection \<open>Sending\<close>

lemma send_command_result:
  "send_command out port state w =
     (Inr (),
      (case out of
         OpenFails msg \<Rightarrow> showerror ''Error'' (''Failed to send command: '' @ msg) w
       | WriteFails msg \<Rightarrow>
           showerror ''Error'' (''Failed to send command: '' @ msg)
             (w\<lparr>serial_writes := serial_writes w @
                 [(port, if state then [0xFF, 0x01] else [0xFF, 0x00])]\<rparr>)
       | WriteOk \<Rightarrow>
           w\<lparr>serial_writes := serial_writes w @
                 [(port, if state then [0xFF, 0x01] else [0xFF, 0x00])]\<rparr>))"
  by (cases out) (simp_all add: send_command_def serial_write_def)

lemma send_command_writes:
  "serial_writes (snd (send_command out port state w)) =
     serial_writes w @
       (if opened out then [(port, if state then [0xFF, 0x01] else [0xFF, 0x00])] else [])"
  by (cases out) (simp_all add: send_command_result showerror_def)

lemma send_command_dialogs:
  "dialogs (snd (send_command out port state w)) =
     dialogs w @
       (case out of
          OpenFails msg \<Rightarrow> [ShowError ''Error'' (''Failed to send command: '' @ msg)]
        | WriteFails msg \<Rightarrow> [ShowError ''Error'' (''Failed to send command: '' @ msg)]
        | WriteOk \<Rightarrow> [])"
  by (cases out) (simp_all add: send_command_result showerror_def)

lemma send_command_files: "files (snd (send_command out port state w)) = files w"
  by (cases out) (simp_all add: send_command_result showerror_def)

text \<open>
  C2. Over any run of calls of \<open>send_command\<close>, the bytes handed to \<open>ser.write\<close> are,
  call by call, \<open>FF 01\<close> for \<open>True\<close> and \<open>FF 00\<close> for \<open>False\<close>, on the port of the
  call, once for each call whose port opened, and nothing else, however many calls
  there are. A call whose port does not open writes nothing.
\<close>

theorem send_commands_writes_frames:
  "serial_writes (send_commands calls w) =
     serial_writes w @
       map (\<lambda>(out, port, state). (port, if state then [0xFF, 0x01] else [0xFF, 0x00]))
         (filter (\<lambda>(out, port, state). opened out) calls)"
proof (induction calls arbitrary: w)
  case Nil
  show ?case by simp
next
  case (Cons c calls)
  obtain out port state where c: "c = (out, port, state)" by (cases c) auto
  show ?case unfolding c by (simp add: Cons.IH send_command_writes)
qed

text \<open>Four calls, one on a port that does not open and one whose write fails.\<close>

theorem send_commands_writes_frames_witness:
  "serial_writes
     (send_commands
        [(WriteOk, ''COM3'', True), (OpenFails ''could not open port COM9'', ''COM9'', True),
         (WriteFails ''device disconnected'', ''COM3'', False), (WriteOk, ''COM3'', True)]
        empty_world) =
   [(''COM3'', [0xFF, 0x01]), (''COM3'', [0xFF, 0x00]), (''COM3'', [0xFF, 0x01])]"
  using send_commands_writes_frames[of
      "[(WriteOk, ''COM3'', True), (OpenFails ''could not open port COM9'', ''COM9'', True),
        (WriteFails ''device disconnected'', ''COM3'', False), (WriteOk, ''COM3'', True)]"
      empty_world]
  by (simp add: empty_world_def)

text \<open>
  C7, as amended. \<open>send_command\<close> never raises and always returns \<open>None\<close>. A failure to
  open the port or to write shows one error dialog, titled \<open>Error\<close>, whose message is
  \<open>Failed to send command:\<close> followed by the message of the exception; the port is
  opened once and written at most once, so nothing is retried. The failure is shown to
  the user and is not handed to the caller.
\<close>

theorem send_command_returns_and_shows_dialog:
  "send_command out port state w =
     (Inr (),
      (case out of
         OpenFails msg \<Rightarrow> showerror ''Error'' (''Failed to send command: '' @ msg) w
       | WriteFails msg \<Rightarrow>
           showerror ''Error'' (''Failed to send command: '' @ msg)
             (w\<lparr>serial_writes := serial_writes w @
                 [(port, if state then [0xFF, 0x01] else [0xFF, 0x00])]\<rparr>)
       | WriteOk \<Rightarrow>
           w\<lparr>serial_writes := serial_writes w @
                 [(port, if state then [0xFF, 0x01] else [0xFF, 0x00])]\<rparr>))"
  by (cases out) (simp_all add: send_command_def serial_write_def)

theorem send_command_returns_and_shows_dialog_witness:
  "send_command (WriteFails ''device disconnected'') ''COM3'' False empty_world =
     (Inr (),
      \<lparr>files = Map.empty, serial_writes = [(''COM3'', [0xFF, 0x00])],
       dialogs = [ShowError ''Error'' ''Failed to send command: device disconnected'']\<rparr>)"
  using send_command_returns_and_shows_dialog
    [of "WriteFails ''device disconnected''" "''COM3''" False empty_world]
  by (simp add: showerror_def empty_world_def)

text \<open>
  C7 as stated has the failure reported to the caller. What the caller receives after a
  send that failed is what it receives after a send that succeeded: the plain return.
\<close>

theorem send_command_failure_not_returned:
  "fst (send_command (OpenFails ''could not open port COM3'') ''COM3'' True empty_world) =
   fst (send_command WriteOk ''COM3'' True empty_world)"
  by (simp add: send_command_def serial_write_def)

subsection \<open>Toggling\<close>

lemma send_command_returns: "fst (send_command out port state w) = Inr ()"
  by (cases out) (simp_all add: send_command_def serial_write_def)

lemma update_ui_rows:
  assumes "relay_states self sn = Some b" "status_circles self sn \<noteq> None" "relay_frames self sn \<noteq> None"
  shows "update_ui sn self =
     Inr (self\<lparr>status_circles := (status_circles self)(sn \<mapsto> (if b then ''green'' else ''red'')),
              relay_frames := (relay_frames self)(sn \<mapsto> (if b then ''ON'' else ''OFF''))\<rparr>)"
  using assms by (auto simp: update_ui_def)

lemma toggle_relay_selected:
  assumes "relay_states self sn = Some b" "status_circles self sn \<noteq> None" "relay_frames self sn \<noteq> None"
    and "selected_com_port self \<noteq> []"
  shows "toggle_relay out sn self w =
     Inr (self\<lparr>relay_states := (relay_states self)(sn \<mapsto> \<not> b),
               status_circles := (status_circles self)(sn \<mapsto> (if \<not> b then ''green'' else ''red'')),
               relay_frames := (relay_frames self)(sn \<mapsto> (if \<not> b then ''ON'' else ''OFF''))\<rparr>,
          snd (send_command out (selected_com_port self) (\<not> b) w))"
proof -
  let ?s = "self\<lparr>relay_states := (relay_states self)(sn \<mapsto> \<not> b)\<rparr>"
  have u: "update_ui sn ?s =
     Inr (?s\<lparr>status_circles := (status_circles ?s)(sn \<mapsto> (if \<not> b then ''green'' else ''red'')),
              relay_frames := (relay_frames ?s)(sn \<mapsto> (if \<not> b then ''ON'' else ''OFF''))\<rparr>)"
    by (rule update_ui_rows) (use assms in simp_all)
  obtain w' where sc: "send_command out (selected_com_port self) (\<not> b) w = (Inr (), w')"
    by (metis send_command_returns prod.collapse)
  show ?thesis
    using assms(1,4) by (simp add: toggle_relay_def Let_def sc u)
qed

lemma toggle_relay_unselected:
  assumes "relay_states self sn = Some b" "selected_com_port self = []"
  shows "toggle_relay out sn self w =
     Inr (self, showerror ''Error'' ''Please select a COM port first!'' w)"
  using assms by (simp add: toggle_relay_def Let_def)

lemma rows_show_stateD:
  "rows_show_state self \<Longrightarrow> relay_states self sn = Some b \<Longrightarrow>
     status_circles self sn = Some (if b then ''green'' else ''red'') \<and>
     relay_frames self sn = Some (if b then ''ON'' else ''OFF'')"
  unfolding rows_show_state_def by blast

lemma rows_show_state_create_row:
  "rows_show_state self \<Longrightarrow> rows_show_state (create_row sn self)"
  by (simp add: rows_show_state_def create_row_def)

lemma rows_show_state_fold:
  "rows_show_state self \<Longrightarrow>
     rows_show_state (fold (\<lambda>(serial_num, port). create_row serial_num) rows self)"
  by (induction rows arbitrary: self) (auto simp: rows_show_state_create_row)

lemma rows_show_state_init:
  assumes "init_app J ports ports' w = Inr self"
  shows "rows_show_state self"
proof -
  obtain s where l: "load_descriptions J (new_app ports) w = Inr s" and self: "self = create_ui ports' s"
    using assms by (auto simp: init_app_def split: sum.splits)
  have "relay_states s = Map.empty"
    using l by (auto simp: load_descriptions_def new_app_def split: option.splits)
  then have "rows_show_state (case ports' of [] \<Rightarrow> s | p # ps \<Rightarrow> s\<lparr>selected_com_port := device p\<rparr>)"
    by (simp add: rows_show_state_def split: list.split)
  then show ?thesis unfolding self create_ui_def by (rule rows_show_state_fold)
qed

lemma rows_show_state_cong:
  assumes "rows_show_state self"
    and "relay_states self' = relay_states self"
    and "status_circles self' = status_circles self"
    and "relay_frames self' = relay_frames self"
  shows "rows_show_state self'"
  using assms unfolding rows_show_state_def by simp

lemma rows_show_state_flip:
  assumes "rows_show_state self"
  shows "rows_show_state
     (self\<lparr>relay_states := (relay_states self)(sn \<mapsto> b),
           status_circles := (status_circles self)(sn \<mapsto> (if b then ''green'' else ''red'')),
           relay_frames := (relay_frames self)(sn \<mapsto> (if b then ''ON'' else ''OFF''))\<rparr>)"
  using assms unfolding rows_show_state_def by simp

lemma rows_show_state_toggle:
  assumes "rows_show_state self" and "toggle_relay out sn self w = Inr (self', w')"
  shows "rows_show_state self'"
proof -
  obtain b where b: "relay_states self sn = Some b"
    using assms(2) by (cases "relay_states self sn") (simp_all add: toggle_relay_def)
  note r = rows_show_stateD[OF assms(1) b]
  show ?thesis
  proof (cases "selected_com_port self = []")
    case True
    have "self' = self" using assms(2) toggle_relay_unselected[OF b True, of out w] by simp
    then show ?thesis using assms(1) by simp
  next
    case False
    have c: "status_circles self sn \<noteq> None" and f: "relay_frames self sn \<noteq> None"
      using r by simp_all
    have "self' = self\<lparr>relay_states := (relay_states self)(sn \<mapsto> \<not> b),
               status_circles := (status_circles self)(sn \<mapsto> (if \<not> b then ''green'' else ''red'')),
               relay_frames := (relay_frames self)(sn \<mapsto> (if \<not> b then ''ON'' else ''OFF''))\<rparr>"
      using assms(2) toggle_relay_selected[OF b c f False, of out w] by simp
    then show ?thesis using rows_show_state_flip[OF assms(1), of sn "\<not> b"] by simp
  qed
qed

lemma save_description_result:
  assumes "description_boxes self sn = Some content"
  shows "save_description J sn self w =
     Inr (self\<lparr>relay_descriptions :=
               AList.update sn (strip (content @ [CHR 0x0A])) (relay_descriptions self)\<rparr>,
          showinfo ''Saved'' (''Description for Relay '' @ serial_str sn @ '' saved.'')
            (save_descriptions J
               (self\<lparr>relay_descriptions :=
                  AList.update sn (strip (content @ [CHR 0x0A])) (relay_descriptions self)\<rparr>) w))"
  using assms by (simp add: save_description_def Let_def)

lemma save_description_None:
  "description_boxes self sn = None \<Longrightarrow> save_description J sn self w = Inl KeyError"
  by (simp add: save_description_def)

lemma clear_description_present:
  assumes "description_boxes self sn = Some content"
    and "map_of (relay_descriptions self) sn \<noteq> None"
  shows "clear_description J sn self w =
     Inr (self\<lparr>description_boxes := (description_boxes self)(sn \<mapsto> []),
               relay_descriptions := AList.delete sn (relay_descriptions self)\<rparr>,
          save_descriptions J
            (self\<lparr>description_boxes := (description_boxes self)(sn \<mapsto> []),
                  relay_descriptions := AList.delete sn (relay_descriptions self)\<rparr>) w)"
  using assms by (simp add: clear_description_def Let_def)

lemma clear_description_absent:
  assumes "description_boxes self sn = Some content"
    and "map_of (relay_descriptions self) sn = None"
  shows "clear_description J sn self w =
     Inr (self\<lparr>description_boxes := (description_boxes self)(sn \<mapsto> [])\<rparr>, w)"
  using assms by (simp add: clear_description_def Let_def)

lemma clear_description_None:
  "description_boxes self sn = None \<Longrightarrow> clear_description J sn self w = Inl KeyError"
  by (simp add: clear_description_def)

lemma rows_show_state_save:
  assumes "rows_show_state self" and "save_description J sn self w = Inr (self', w')"
  shows "rows_show_state self'"
proof (cases "description_boxes self sn")
  case None
  then show ?thesis using assms(2) save_description_None[of self sn J w] by simp
next
  case (Some content)
  have "self' = self\<lparr>relay_descriptions :=
               AList.update sn (strip (content @ [CHR 0x0A])) (relay_descriptions self)\<rparr>"
    using assms(2) save_description_result[OF Some, of J w] by simp
  then show ?thesis using assms(1) by (simp add: rows_show_state_cong)
qed

lemma rows_show_state_clear:
  assumes "rows_show_state self" and "clear_description J sn self w = Inr (self', w')"
  shows "rows_show_state self'"
proof (cases "description_boxes self sn")
  case None
  then show ?thesis using assms(2) clear_description_None[of self sn J w] by simp
next
  case (Some content)
  show ?thesis
  proof (cases "map_of (relay_descriptions self) sn = None")
    case True
    have "self' = self\<lparr>description_boxes := (description_boxes self)(sn \<mapsto> [])\<rparr>"
      using assms(2) clear_description_absent[OF Some True, of J w] by simp
    then show ?thesis using assms(1) by (simp add: rows_show_state_cong)
  next
    case False
    have "self' = self\<lparr>description_boxes := (description_boxes self)(sn \<mapsto> []),
               relay_descriptions := AList.delete sn (relay_descriptions self)\<rparr>"
      using assms(2) clear_description_present[OF Some False, of J w] by simp
    then show ?thesis using assms(1) by (simp add: rows_show_state_cong)
  qed
qed

lemma rows_show_state_refresh:
  assumes "rows_show_state self" and "refresh_ports ports self w = (self', w')"
  shows "rows_show_state self'"
proof -
  have "self' = self\<lparr>selected_com_port := (case ports of [] \<Rightarrow> [] | p # ps \<Rightarrow> device p)\<rparr>"
    using assms(2) by (simp add: refresh_ports_def)
  then show ?thesis using assms(1) by (simp add: rows_show_state_cong)
qed

lemma reachable_rows_show_state_fst:
  "reachable J sw \<Longrightarrow> rows_show_state (fst sw)"
proof (induction rule: reachable.induct)
  case (start ports ports' w self)
  then show ?case by (simp add: rows_show_state_init)
next
  case (toggle self w out serial_num self' w')
  then show ?case using rows_show_state_toggle[of self out serial_num w self' w'] by simp
next
  case (save self w serial_num self' w')
  then show ?case using rows_show_state_save[of self J serial_num w self' w'] by simp
next
  case (clear self w serial_num self' w')
  then show ?case using rows_show_state_clear[of self J serial_num w self' w'] by simp
next
  case (refresh self w ports self' w')
  then show ?case using rows_show_state_refresh[of self ports w self' w'] by simp
next
  case (select self w port)
  then show ?case by (simp add: rows_show_state_cong)
next
  case (edit self w serial_num content)
  then show ?case by (simp add: rows_show_state_cong)
qed

lemma reachable_rows_show_state:
  "reachable J (self, w) \<Longrightarrow> rows_show_state self"
  using reachable_rows_show_state_fst[of J "(self, w)"] by simp

lemma started_init: "init_app json_sample [relay_a] [relay_a] empty_world = Inr started"
  by (simp add: init_app_def load_descriptions_def new_app_def empty_world_def DESCRIPTION_FILE_def
      create_ui_def create_row_def find_relay_ports_def relay_a_def PRODUCT_ID_def started_def)

lemma started_reachable: "reachable json_sample (started, empty_world)"
  using started_init by (rule reachable.start)

text \<open>
  C1, as amended. In a running program, for every relay row and every toggle with a
  port selected, the state of the row is flipped, whether the command was sent or the
  send failed; a failed send only adds its error dialog. The state is left as it was
  only when no port is selected, where nothing is sent.
\<close>

theorem toggle_relay_flips_on_every_outcome:
  assumes "reachable J (self, w)" and "relay_states self sn = Some b"
  shows "(selected_com_port self \<noteq> [] \<longrightarrow>
            (\<exists>self' w'. toggle_relay out sn self w = Inr (self', w') \<and>
               relay_states self' sn = Some (\<not> b) \<and>
               dialogs w' = dialogs w @
                 (case out of
                    OpenFails msg \<Rightarrow> [ShowError ''Error'' (''Failed to send command: '' @ msg)]
                  | WriteFails msg \<Rightarrow> [ShowError ''Error'' (''Failed to send command: '' @ msg)]
                  | WriteOk \<Rightarrow> []))) \<and>
         (selected_com_port self = [] \<longrightarrow>
            toggle_relay out sn self w =
              Inr (self, showerror ''Error'' ''Please select a COM port first!'' w))"
proof -
  have r: "rows_show_state self" using assms(1) by (rule reachable_rows_show_state)
  have c: "status_circles self sn \<noteq> None" and f: "relay_frames self sn \<noteq> None"
    using rows_show_stateD[OF r assms(2)] by simp_all
  show ?thesis
  proof (intro conjI impI)
    assume sel: "selected_com_port self \<noteq> []"
    show "\<exists>self' w'. toggle_relay out sn self w = Inr (self', w') \<and>
               relay_states self' sn = Some (\<not> b) \<and>
               dialogs w' = dialogs w @
                 (case out of
                    OpenFails msg \<Rightarrow> [ShowError ''Error'' (''Failed to send command: '' @ msg)]
                  | WriteFails msg \<Rightarrow> [ShowError ''Error'' (''Failed to send command: '' @ msg)]
                  | WriteOk \<Rightarrow> [])"
      unfolding toggle_relay_selected[OF assms(2) c f sel]
      by (simp add: send_command_dialogs)
  next
    assume "selected_com_port self = []"
    then show "toggle_relay out sn self w =
              Inr (self, showerror ''Error'' ''Please select a COM port first!'' w)"
      using assms(2) by (rule toggle_relay_unselected[rotated])
  qed
qed

text \<open>
  The theorem on the started program, with a write that fails: the dialog is shown and
  the state is flipped.
\<close>

theorem toggle_relay_flips_on_every_outcome_witness:
  "reachable json_sample (started, empty_world) \<and>
   relay_states started (Some ''A50285BI'') = Some False \<and>
   selected_com_port started \<noteq> [] \<and>
   (\<exists>self' w'.
      toggle_relay (WriteFails ''device disconnected'') (Some ''A50285BI'') started empty_world =
        Inr (self', w') \<and>
      relay_states self' (Some ''A50285BI'') = Some True \<and>
      dialogs w' = [ShowError ''Error'' ''Failed to send command: device disconnected''])"
proof -
  have s: "relay_states started (Some ''A50285BI'') = Some False"
    and p: "selected_com_port started \<noteq> []"
    by (simp_all add: started_def)
  show ?thesis
    using toggle_relay_flips_on_every_outcome[OF started_reachable s, of "WriteFails ''device disconnected''"] s p started_reachable
    by (simp add: empty_world_def)
qed

text \<open>
  C1 as stated fails: the port cannot be opened, \<open>send_command\<close> shows the error dialog,
  and the state of the row goes from \<open>False\<close> to \<open>True\<close>, with the circle green and
  the button reading \<open>ON\<close>.
\<close>

theorem toggle_relay_flips_after_failed_send:
  "relay_states started (Some ''A50285BI'') = Some False \<and>
   toggle_relay (OpenFails ''could not open port COM3'') (Some ''A50285BI'') started empty_world =
     Inr (started\<lparr>relay_states := [Some ''A50285BI'' \<mapsto> True],
                  status_circles := [Some ''A50285BI'' \<mapsto> ''green''],
                  relay_frames := [Some ''A50285BI'' \<mapsto> ''ON'']\<rparr>,
          empty_world\<lparr>dialogs :=
            [ShowError ''Error'' ''Failed to send command: could not open port COM3'']\<rparr>)"
  by (simp add: started_def empty_world_def toggle_relay_def update_ui_def send_command_def
      serial_write_def showerror_def Let_def)

text \<open>
  C8. In a running program with a port selected, toggling a relay row twice, whatever
  the serial layer does during either send, returns the circle to its colour, the
  button to its text and the state to its value; the object is as it was before. In
  between, the state is the opposite one.
\<close>

theorem toggle_relay_twice_restores:
  assumes "reachable J (self, w)" and "relay_states self sn = Some b"
    and "selected_com_port self \<noteq> []"
  shows "\<exists>self1 w1 self2 w2.
           toggle_relay out1 sn self w = Inr (self1, w1) \<and>
           toggle_relay out2 sn self1 w1 = Inr (self2, w2) \<and>
           relay_states self1 sn = Some (\<not> b) \<and>
           status_circles self2 sn = status_circles self sn \<and>
           relay_frames self2 sn = relay_frames self sn \<and>
           relay_states self2 sn = relay_states self sn \<and>
           self2 = self"
proof -
  have r: "rows_show_state self" using assms(1) by (rule reachable_rows_show_state)
  note rs = rows_show_stateD[OF r assms(2)]
  have c: "status_circles self sn \<noteq> None" and f: "relay_frames self sn \<noteq> None"
    using rs by simp_all
  define self1 where "self1 = self\<lparr>relay_states := (relay_states self)(sn \<mapsto> \<not> b),
               status_circles := (status_circles self)(sn \<mapsto> (if \<not> b then ''green'' else ''red'')),
               relay_frames := (relay_frames self)(sn \<mapsto> (if \<not> b then ''ON'' else ''OFF''))\<rparr>"
  define w1 where "w1 = snd (send_command out1 (selected_com_port self) (\<not> b) w)"
  have t1: "toggle_relay out1 sn self w = Inr (self1, w1)"
    unfolding self1_def w1_def by (rule toggle_relay_selected[OF assms(2) c f assms(3)])
  have s1: "relay_states self1 sn = Some (\<not> b)"
    and c1: "status_circles self1 sn \<noteq> None" and f1: "relay_frames self1 sn \<noteq> None"
    and p1: "selected_com_port self1 \<noteq> []"
    using assms(3) by (simp_all add: self1_def)
  have restored: "self1\<lparr>relay_states := (relay_states self1)(sn \<mapsto> \<not> \<not> b),
               status_circles := (status_circles self1)(sn \<mapsto> (if \<not> \<not> b then ''green'' else ''red'')),
               relay_frames := (relay_frames self1)(sn \<mapsto> (if \<not> \<not> b then ''ON'' else ''OFF''))\<rparr> = self"
  proof -
    have "(relay_states self)(sn \<mapsto> b) = relay_states self"
      using assms(2) by (rule map_upd_triv)
    moreover have "(status_circles self)(sn \<mapsto> (if b then ''green'' else ''red'')) = status_circles self"
      using rs by (simp add: map_upd_triv)
    moreover have "(relay_frames self)(sn \<mapsto> (if b then ''ON'' else ''OFF'')) = relay_frames self"
      using rs by (simp add: map_upd_triv)
    ultimately show ?thesis by (simp add: self1_def)
  qed
  have t2: "toggle_relay out2 sn self1 w1 =
      Inr (self, snd (send_command out2 (selected_com_port self1) (\<not> \<not> b) w1))"
    using toggle_relay_selected[OF s1 c1 f1 p1, of out2 w1] unfolding restored .
  show ?thesis using t1 t2 s1 by blast
qed

text \<open>The theorem on the started program: a send that succeeds, then one that fails.\<close>

theorem toggle_relay_twice_restores_witness:
  "reachable json_sample (started, empty_world) \<and>
   relay_states started (Some ''A50285BI'') = Some False \<and>
   selected_com_port started \<noteq> [] \<and>
   (\<exists>self1 w1 self2 w2.
      toggle_relay WriteOk (Some ''A50285BI'') started empty_world = Inr (self1, w1) \<and>
      toggle_relay (OpenFails ''could not open port COM3'') (Some ''A50285BI'') self1 w1 =
        Inr (self2, w2) \<and>
      relay_states self1 (Some ''A50285BI'') = Some True \<and>
      status_circles self2 (Some ''A50285BI'') = Some ''red'' \<and>
      relay_frames self2 (Some ''A50285BI'') = Some ''OFF'' \<and>
      relay_states self2 (Some ''A50285BI'') = Some False)"
proof -
  have s: "relay_states started (Some ''A50285BI'') = Some False"
    and p: "selected_com_port started \<noteq> []"
    and c: "status_circles started (Some ''A50285BI'') = Some ''red''"
    and f: "relay_frames started (Some ''A50285BI'') = Some ''OFF''"
    by (simp_all add: started_def)
  show ?thesis
    using toggle_relay_twice_restores[OF started_reachable s p, of WriteOk "OpenFails ''could not open port COM3''"]
      s p c f started_reachable
    by auto
qed

subsection \<open>Stripping\<close>

lemma rev_dropWhile_split:
  "t = rev (dropWhile P (rev t)) @ rev (takeWhile P (rev t))"
proof -
  have "rev (takeWhile P (rev t) @ dropWhile P (rev t)) =
        rev (dropWhile P (rev t)) @ rev (takeWhile P (rev t))"
    by (rule rev_append)
  then show ?thesis by simp
qed

lemma strip_split:
  "dropWhile isspace s = strip s @ rev (takeWhile isspace (rev (dropWhile isspace s)))"
  unfolding strip_def by (rule rev_dropWhile_split)

lemma strip_decomp:
  "\<exists>l r. s = l @ strip s @ r \<and> list_all isspace l \<and> list_all isspace r"
proof -
  let ?r = "rev (takeWhile isspace (rev (dropWhile isspace s)))"
  have "s = takeWhile isspace s @ dropWhile isspace s" by simp
  then have "s = takeWhile isspace s @ strip s @ ?r"
    using strip_split[of s] by simp
  moreover have "list_all isspace (takeWhile isspace s)"
    by (auto simp: list_all_iff dest: set_takeWhileD)
  moreover have "list_all isspace ?r"
    by (auto simp: list_all_iff dest: set_takeWhileD)
  ultimately show ?thesis by blast
qed

lemma strip_edges:
  assumes "strip s \<noteq> []"
  shows "\<not> isspace (hd (strip s)) \<and> \<not> isspace (last (strip s))"
proof -
  define t where "t = dropWhile isspace s"
  have s: "strip s = rev (dropWhile isspace (rev t))" by (simp add: strip_def t_def)
  have ne: "dropWhile isspace (rev t) \<noteq> []" using assms s by simp
  have "last (strip s) = hd (dropWhile isspace (rev t))" by (simp add: s last_rev)
  then have la: "\<not> isspace (last (strip s))" using hd_dropWhile[OF ne] by simp
  have b: "t = strip s @ rev (takeWhile isspace (rev t))"
    unfolding t_def by (rule strip_split)
  have "t \<noteq> []" using b assms by auto
  then have "\<not> isspace (hd t)" unfolding t_def by (rule hd_dropWhile)
  moreover have "hd t = hd (strip s)" using b assms by (metis hd_append2)
  ultimately show ?thesis using la by simp
qed

lemma strip_snoc_space:
  assumes "isspace c"
  shows "strip (s @ [c]) = strip s"
proof (cases "\<forall>x\<in>set s. isspace x")
  case True
  have "\<forall>x\<in>set (s @ [c]). isspace x" using True assms by simp
  then have a: "dropWhile isspace (s @ [c]) = []" by (simp only: dropWhile_eq_Nil_conv)
  have b: "dropWhile isspace s = []" using True by (simp only: dropWhile_eq_Nil_conv)
  show ?thesis unfolding strip_def a b by simp
next
  case False
  then have "dropWhile isspace (s @ [c]) = dropWhile isspace s @ [c]"
    by (simp add: dropWhile_append)
  then show ?thesis using assms by (simp add: strip_def)
qed

lemma isspace_newline: "isspace (CHR 0x0A)"
  by (simp add: isspace_def)

subsection \<open>The description file\<close>

lemma relay_descriptions_create_ui:
  "relay_descriptions (create_ui ports self) = relay_descriptions self"
proof -
  have f: "relay_descriptions (fold (\<lambda>(serial_num, port). create_row serial_num) rows s)
            = relay_descriptions s" for rows :: "(serial \<times> string) list" and s
    by (induction rows arbitrary: s) (auto simp: create_row_def)
  show ?thesis unfolding create_ui_def by (simp add: f split: list.split)
qed

lemma load_descriptions_absent:
  "files w DESCRIPTION_FILE = None \<Longrightarrow> load_descriptions J self w = Inr self"
  by (simp add: load_descriptions_def)

lemma load_descriptions_malformed:
  "files w DESCRIPTION_FILE = Some text \<Longrightarrow> json_load J text = None \<Longrightarrow>
     load_descriptions J self w = Inl JSONDecodeError"
  by (simp add: load_descriptions_def)

lemma load_descriptions_valid:
  "files w DESCRIPTION_FILE = Some text \<Longrightarrow> json_load J text = Some d \<Longrightarrow>
     load_descriptions J self w = Inr (self\<lparr>relay_descriptions := d\<rparr>)"
  by (simp add: load_descriptions_def)

lemma files_save_descriptions:
  "files (save_descriptions J self w) DESCRIPTION_FILE = Some (json_dump J (relay_descriptions self))"
  by (simp add: save_descriptions_def)

lemma loaded_descriptions_absent:
  "files w DESCRIPTION_FILE = None \<Longrightarrow> loaded_descriptions J w = Inr []"
  by (simp add: loaded_descriptions_def load_descriptions_absent new_app_def)

lemma loaded_descriptions_malformed:
  "files w DESCRIPTION_FILE = Some text \<Longrightarrow> json_load J text = None \<Longrightarrow>
     loaded_descriptions J w = Inl JSONDecodeError"
  by (simp add: loaded_descriptions_def load_descriptions_malformed)

lemma loaded_descriptions_valid:
  "files w DESCRIPTION_FILE = Some text \<Longrightarrow> json_load J text = Some d \<Longrightarrow>
     loaded_descriptions J w = Inr d"
  by (simp add: loaded_descriptions_def load_descriptions_valid)

lemma loaded_descriptions_files:
  "files w' = files w \<Longrightarrow> loaded_descriptions J w' = loaded_descriptions J w"
  by (simp add: loaded_descriptions_def load_descriptions_def)

lemma json_sample_pump:
  "json_load json_sample pump_text = Some pump_doc"
  "json_dump json_sample pump_doc = pump_text"
  "json_load json_sample ''{}'' = Some []"
  "json_dump json_sample [] = ''{}''"
  by (simp_all add: json_sample_def pump_text_def pump_doc_def)

text \<open>
  C4. When the description file does not exist, loading at start gives the empty
  mapping and \<open>__init__\<close> returns with it. When the file exists and its text is not
  JSON, \<open>load_descriptions\<close> raises \<open>JSONDecodeError\<close>, nothing catches it, and
  \<open>__init__\<close> raises it: there is no application object.
\<close>

theorem init_loads_empty_or_fails:
  "(files w DESCRIPTION_FILE = None \<longrightarrow>
      loaded_descriptions J w = Inr [] \<and>
      (\<exists>self. init_app J ports ports' w = Inr self \<and> relay_descriptions self = [])) \<and>
   (\<forall>text. files w DESCRIPTION_FILE = Some text \<and> json_load J text = None \<longrightarrow>
      loaded_descriptions J w = Inl JSONDecodeError \<and>
      load_descriptions J self w = Inl JSONDecodeError \<and>
      init_app J ports ports' w = Inl JSONDecodeError)"
proof (intro conjI impI allI)
  assume a: "files w DESCRIPTION_FILE = None"
  show "loaded_descriptions J w = Inr []" using a by (rule loaded_descriptions_absent)
  have "init_app J ports ports' w = Inr (create_ui ports' (new_app ports))"
    by (simp add: init_app_def load_descriptions_absent[OF a])
  moreover have "relay_descriptions (create_ui ports' (new_app ports)) = []"
    by (simp add: relay_descriptions_create_ui new_app_def)
  ultimately show "\<exists>self. init_app J ports ports' w = Inr self \<and> relay_descriptions self = []"
    by blast
next
  fix content
  assume "files w DESCRIPTION_FILE = Some content \<and> json_load J content = None"
  then have f: "files w DESCRIPTION_FILE = Some content" and m: "json_load J content = None"
    by simp_all
  show "loaded_descriptions J w = Inl JSONDecodeError"
    using f m by (rule loaded_descriptions_malformed)
  show "load_descriptions J self w = Inl JSONDecodeError"
    using f m by (rule load_descriptions_malformed)
  show "init_app J ports ports' w = Inl JSONDecodeError"
    by (simp add: init_app_def load_descriptions_malformed[OF f m])
qed

text \<open>The theorem on a world with no file, and on one whose file is not JSON.\<close>

theorem init_loads_empty_or_fails_witness:
  "files empty_world DESCRIPTION_FILE = None \<and>
   loaded_descriptions json_sample empty_world = Inr [] \<and>
   init_app json_sample [relay_a] [relay_a] empty_world = Inr started \<and>
   relay_descriptions started = [] \<and>
   files broken_world DESCRIPTION_FILE = Some ''{not json'' \<and>
   json_load json_sample ''{not json'' = None \<and>
   loaded_descriptions json_sample broken_world = Inl JSONDecodeError \<and>
   init_app json_sample [relay_a] [relay_a] broken_world = Inl JSONDecodeError"
proof -
  have a: "files empty_world DESCRIPTION_FILE = None" by (simp add: empty_world_def)
  have f: "files broken_world DESCRIPTION_FILE = Some ''{not json''"
    by (simp add: broken_world_def)
  have m: "json_load json_sample ''{not json'' = None"
    by (simp add: json_sample_def pump_text_def)
  have r: "relay_descriptions started = []" by (simp add: started_def)
  show ?thesis
    using init_loads_empty_or_fails[of empty_world json_sample "[relay_a]" "[relay_a]" started]
      init_loads_empty_or_fails[of broken_world json_sample "[relay_a]" "[relay_a]" started]
      a f m r started_init
    by simp
qed

text \<open>
  C6. For a description file whose text is JSON, with a JSON library that reads back
  the document it writes: loading, saving the loaded mapping unchanged and loading
  again gives the mapping of the first load, and the file then reads as it read before.
\<close>

theorem load_save_load_same_mapping:
  assumes "files w DESCRIPTION_FILE = Some text" and "json_load J text = Some d"
    and "json_load J (json_dump J d) = Some d"
  shows "\<exists>self1 self2.
           load_descriptions J self w = Inr self1 \<and>
           load_descriptions J self1 (save_descriptions J self1 w) = Inr self2 \<and>
           relay_descriptions self1 = d \<and>
           relay_descriptions self2 = relay_descriptions self1 \<and>
           loaded_descriptions J (save_descriptions J self1 w) = loaded_descriptions J w"
proof -
  let ?s1 = "self\<lparr>relay_descriptions := d\<rparr>"
  let ?w1 = "save_descriptions J ?s1 w"
  have l1: "load_descriptions J self w = Inr ?s1"
    using assms(1,2) by (rule load_descriptions_valid)
  have f1: "files ?w1 DESCRIPTION_FILE = Some (json_dump J d)"
    by (simp add: files_save_descriptions)
  have l2: "load_descriptions J ?s1 ?w1 = Inr (?s1\<lparr>relay_descriptions := d\<rparr>)"
    using f1 assms(3) by (rule load_descriptions_valid)
  have "loaded_descriptions J ?w1 = Inr d"
    using f1 assms(3) by (rule loaded_descriptions_valid)
  moreover have "loaded_descriptions J w = Inr d"
    using assms(1,2) by (rule loaded_descriptions_valid)
  ultimately have e: "loaded_descriptions J ?w1 = loaded_descriptions J w" by simp
  show ?thesis using l1 l2 e by simp
qed

text \<open>The theorem on the file of one entry.\<close>

theorem load_save_load_same_mapping_witness:
  "files pump_world DESCRIPTION_FILE = Some pump_text \<and>
   json_load json_sample pump_text = Some pump_doc \<and>
   json_load json_sample (json_dump json_sample pump_doc) = Some pump_doc \<and>
   (\<exists>self1 self2.
      load_descriptions json_sample started pump_world = Inr self1 \<and>
      load_descriptions json_sample self1 (save_descriptions json_sample self1 pump_world) = Inr self2 \<and>
      relay_descriptions self1 = pump_doc \<and>
      relay_descriptions self2 = pump_doc)"
proof -
  have f: "files pump_world DESCRIPTION_FILE = Some pump_text" by (simp add: pump_world_def)
  have v: "json_load json_sample pump_text = Some pump_doc" by (rule json_sample_pump)
  have l: "json_load json_sample (json_dump json_sample pump_doc) = Some pump_doc"
    by (simp add: json_sample_pump)
  show ?thesis using load_save_load_same_mapping[OF f v l, of started] f v l by auto
qed

subsection \<open>Running states and the file\<close>

lemma update_ui_relay_descriptions:
  assumes "update_ui sn self = Inr self'"
  shows "relay_descriptions self' = relay_descriptions self"
proof -
  obtain b where b: "relay_states self sn = Some b"
    using assms by (cases "relay_states self sn") (simp_all add: update_ui_def)
  obtain c where c: "status_circles self sn = Some c"
    using assms b by (cases "status_circles self sn") (simp_all add: update_ui_def)
  obtain f where f: "relay_frames self sn = Some f"
    using assms b c by (cases "relay_frames self sn") (simp_all add: update_ui_def)
  have "self' = self\<lparr>status_circles := (status_circles self)(sn \<mapsto> (if b then ''green'' else ''red'')),
              relay_frames := (relay_frames self)(sn \<mapsto> (if b then ''ON'' else ''OFF''))\<rparr>"
    using assms update_ui_rows[of self sn b] b c f by simp
  then show ?thesis by simp
qed

lemma toggle_relay_frame:
  assumes "toggle_relay out sn self w = Inr (self', w')"
  shows "relay_descriptions self' = relay_descriptions self \<and> files w' = files w"
proof -
  obtain b where b: "relay_states self sn = Some b"
    using assms by (cases "relay_states self sn") (simp_all add: toggle_relay_def)
  show ?thesis
  proof (cases "selected_com_port self = []")
    case True
    have "(Inr (self', w') :: exn + app \<times> world) = Inr (self, showerror ''Error'' ''Please select a COM port first!'' w)"
      using assms toggle_relay_unselected[OF b True, of out w] by (rule trans[OF sym])
    then have "self' = self" "w' = showerror ''Error'' ''Please select a COM port first!'' w"
      by simp_all
    then show ?thesis by (simp add: showerror_def)
  next
    case False
    let ?s = "self\<lparr>relay_states := (relay_states self)(sn \<mapsto> \<not> b)\<rparr>"
    obtain w1 where sc: "send_command out (selected_com_port self) (\<not> b) w = (Inr (), w1)"
      by (metis send_command_returns prod.collapse)
    have fw: "files w1 = files w"
      using send_command_files[of out "selected_com_port self" "\<not> b" w] by (simp add: sc)
    have t: "toggle_relay out sn self w =
        (case update_ui sn ?s of Inl e \<Rightarrow> Inl e | Inr self' \<Rightarrow> Inr (self', w1))"
      using b False by (simp add: toggle_relay_def Let_def sc)
    obtain s' where u: "update_ui sn ?s = Inr s'"
      using assms t by (cases "update_ui sn ?s") simp_all
    have "toggle_relay out sn self w = Inr (s', w1)" using t u by simp
    with assms have "(Inr (self', w') :: exn + app \<times> world) = Inr (s', w1)"
      by (rule trans[OF sym])
    then have "self' = s'" "w' = w1" by simp_all
    moreover have "relay_descriptions s' = relay_descriptions self"
      using update_ui_relay_descriptions[OF u] by simp
    ultimately show ?thesis by (simp add: fw)
  qed
qed

text \<open>
  With a JSON library that reads back what it writes, what a running program holds in
  \<open>relay_descriptions\<close> is what a start would read from the file.
\<close>

lemma reachable_in_sync_fst:
  assumes lib: "\<And>d. json_load J (json_dump J d) = Some d" and "reachable J sw"
  shows "loaded_descriptions J (snd sw) = Inr (relay_descriptions (fst sw))"
  using assms(2)
proof (induction rule: reachable.induct)
  case (start ports ports' w self)
  show ?case
  proof (cases "files w DESCRIPTION_FILE")
    case None
    have "self = create_ui ports' (new_app ports)"
      using start by (simp add: init_app_def load_descriptions_absent[OF None])
    then have "relay_descriptions self = []"
      by (simp add: relay_descriptions_create_ui new_app_def)
    then show ?thesis by (simp add: loaded_descriptions_absent[OF None])
  next
    case (Some content)
    show ?thesis
    proof (cases "json_load J content")
      case None
      then show ?thesis
        using start by (simp add: init_app_def load_descriptions_malformed[OF Some None])
    next
      case (Some d)
      have "self = create_ui ports' ((new_app ports)\<lparr>relay_descriptions := d\<rparr>)"
        using start
        by (simp add: init_app_def load_descriptions_valid[OF \<open>files w DESCRIPTION_FILE = Some content\<close> Some])
      then have "relay_descriptions self = d"
        by (simp add: relay_descriptions_create_ui)
      then show ?thesis
        by (simp add: loaded_descriptions_valid[OF \<open>files w DESCRIPTION_FILE = Some content\<close> Some])
    qed
  qed
next
  case (toggle self w out serial_num self' w')
  have "relay_descriptions self' = relay_descriptions self" "files w' = files w"
    using toggle_relay_frame[OF toggle.hyps(2)] by simp_all
  then show ?case using toggle.IH loaded_descriptions_files[of w' w J] by simp
next
  case (save self w serial_num self' w')
  obtain content where b: "description_boxes self serial_num = Some content"
    using save.hyps(2) by (cases "description_boxes self serial_num")
      (simp_all add: save_description_None)
  let ?s = "self\<lparr>relay_descriptions :=
               AList.update serial_num (strip (content @ [CHR 0x0A])) (relay_descriptions self)\<rparr>"
  have "(Inr (self', w') :: exn + app \<times> world) =
      Inr (?s, showinfo ''Saved'' (''Description for Relay '' @ serial_str serial_num @ '' saved.'')
            (save_descriptions J ?s w))"
    using save.hyps(2) save_description_result[OF b, of J w] by (rule trans[OF sym])
  then have "self' = ?s"
    and "w' = showinfo ''Saved'' (''Description for Relay '' @ serial_str serial_num @ '' saved.'')
            (save_descriptions J ?s w)"
    by simp_all
  then have "files w' DESCRIPTION_FILE = Some (json_dump J (relay_descriptions self'))"
    by (simp add: showinfo_def save_descriptions_def)
  then have "loaded_descriptions J w' = Inr (relay_descriptions self')"
    using lib by (rule loaded_descriptions_valid)
  then show ?case by simp
next
  case (clear self w serial_num self' w')
  obtain content where b: "description_boxes self serial_num = Some content"
    using clear.hyps(2) by (cases "description_boxes self serial_num")
      (simp_all add: clear_description_None)
  show ?case
  proof (cases "map_of (relay_descriptions self) serial_num = None")
    case True
    have "(Inr (self', w') :: exn + app \<times> world) =
        Inr (self\<lparr>description_boxes := (description_boxes self)(serial_num \<mapsto> [])\<rparr>, w)"
      using clear.hyps(2) clear_description_absent[OF b True, of J w] by (rule trans[OF sym])
    then have "self' = self\<lparr>description_boxes := (description_boxes self)(serial_num \<mapsto> [])\<rparr>"
      and "w' = w"
      by simp_all
    then show ?thesis using clear.IH by simp
  next
    case False
    let ?s = "self\<lparr>description_boxes := (description_boxes self)(serial_num \<mapsto> []),
               relay_descriptions := AList.delete serial_num (relay_descriptions self)\<rparr>"
    have "(Inr (self', w') :: exn + app \<times> world) = Inr (?s, save_descriptions J ?s w)"
      using clear.hyps(2) clear_description_present[OF b False, of J w] by (rule trans[OF sym])
    then have "self' = ?s" "w' = save_descriptions J ?s w"
      by simp_all
    then have "files w' DESCRIPTION_FILE = Some (json_dump J (relay_descriptions self'))"
      by (simp add: save_descriptions_def)
    then have "loaded_descriptions J w' = Inr (relay_descriptions self')"
      using lib by (rule loaded_descriptions_valid)
    then show ?thesis by simp
  qed
next
  case (refresh self w ports self' w')
  have "relay_descriptions self' = relay_descriptions self" "files w' = files w"
    using refresh.hyps(2)[symmetric] by (simp_all add: refresh_ports_def showinfo_def)
  then show ?case using refresh.IH loaded_descriptions_files[of w' w J] by simp
next
  case (select self w port)
  then show ?case by simp
next
  case (edit self w serial_num content)
  then show ?case by simp
qed

lemma reachable_in_sync:
  assumes "\<And>d. json_load J (json_dump J d) = Some d" and "reachable J (self, w)"
  shows "loaded_descriptions J w = Inr (relay_descriptions self)"
  using reachable_in_sync_fst[OF assms] by simp



text \<open>
  C9. \<open>save_description\<close> on a row stores, under the key of the row, the text of the box
  stripped: the text read from the box with the line end Tk appends strips to the same
  as the text itself, the stored value is the text without a run of whitespace at the
  start and one at the end, and it neither starts nor ends with whitespace. The file
  is written with the mapping that holds this value.
\<close>

theorem save_description_stores_stripped:
  assumes "description_boxes self sn = Some content"
  shows "\<exists>self' w'.
           save_description J sn self w = Inr (self', w') \<and>
           map_of (relay_descriptions self') sn = Some (strip content) \<and>
           files w' DESCRIPTION_FILE = Some (json_dump J (relay_descriptions self')) \<and>
           strip (content @ [CHR 0x0A]) = strip content \<and>
           (\<exists>l r. content = l @ strip content @ r \<and> list_all isspace l \<and> list_all isspace r) \<and>
           (strip content \<noteq> [] \<longrightarrow>
              \<not> isspace (hd (strip content)) \<and> \<not> isspace (last (strip content)))"
proof -
  have n: "strip (content @ [CHR 0x0A]) = strip content"
    using isspace_newline by (rule strip_snoc_space)
  let ?s = "self\<lparr>relay_descriptions :=
               AList.update sn (strip (content @ [CHR 0x0A])) (relay_descriptions self)\<rparr>"
  let ?w = "showinfo ''Saved'' (''Description for Relay '' @ serial_str sn @ '' saved.'')
            (save_descriptions J ?s w)"
  have r: "save_description J sn self w = Inr (?s, ?w)"
    using assms by (rule save_description_result)
  have m: "map_of (relay_descriptions ?s) sn = Some (strip content)"
    by (simp add: update_conv' n)
  have f: "files ?w DESCRIPTION_FILE = Some (json_dump J (relay_descriptions ?s))"
    by (simp add: showinfo_def save_descriptions_def)
  have e: "strip content \<noteq> [] \<longrightarrow>
              \<not> isspace (hd (strip content)) \<and> \<not> isspace (last (strip content))"
    using strip_edges[of content] by blast
  show ?thesis
    by (intro exI[of _ ?s] exI[of _ ?w] conjI r m f n strip_decomp e)
qed

text \<open>The theorem on a box with a space and a tab before the text, a space and a line end after.\<close>

theorem save_description_stores_stripped_witness:
  "description_boxes typed_app (Some ''A50285BI'') =
     Some ([CHR 0x20, CHR 0x09] @ ''Pump relay '' @ [CHR 0x0A, CHR 0x0A]) \<and>
   strip ([CHR 0x20, CHR 0x09] @ ''Pump relay '' @ [CHR 0x0A, CHR 0x0A]) = ''Pump relay'' \<and>
   (\<exists>self' w'.
      save_description json_sample (Some ''A50285BI'') typed_app empty_world = Inr (self', w') \<and>
      map_of (relay_descriptions self') (Some ''A50285BI'') = Some ''Pump relay'' \<and>
      files w' DESCRIPTION_FILE = Some (json_dump json_sample (relay_descriptions self')))"
proof -
  have b: "description_boxes typed_app (Some ''A50285BI'') =
     Some ([CHR 0x20, CHR 0x09] @ ''Pump relay '' @ [CHR 0x0A, CHR 0x0A])"
    by (simp add: typed_app_def)
  have s: "strip ([CHR 0x20, CHR 0x09] @ ''Pump relay '' @ [CHR 0x0A, CHR 0x0A]) = ''Pump relay''"
    by (simp add: strip_def isspace_def)
  from save_description_stores_stripped[OF b, of json_sample empty_world] obtain self' w'
    where x: "save_description json_sample (Some ''A50285BI'') typed_app empty_world = Inr (self', w')"
      and y: "map_of (relay_descriptions self') (Some ''A50285BI'') =
                Some (strip ([CHR 0x20, CHR 0x09] @ ''Pump relay '' @ [CHR 0x0A, CHR 0x0A]))"
      and z: "files w' DESCRIPTION_FILE = Some (json_dump json_sample (relay_descriptions self'))"
    by blast
  have y': "map_of (relay_descriptions self') (Some ''A50285BI'') = Some ''Pump relay''"
    using y unfolding s .
  show ?thesis
    by (intro conjI b s exI[of _ self'] exI[of _ w'] x y' z)
qed

text \<open>
  C10. \<open>clear_description\<close> for a key that is not in \<open>relay_descriptions\<close> empties the box
  of the row and returns the world it was given: the file is not written, and the
  mapping in memory is unchanged. Without a box for the key it raises \<open>KeyError\<close>,
  before anything is written.
\<close>

theorem clear_description_absent_key_writes_nothing:
  assumes "map_of (relay_descriptions self) k = None"
  shows "clear_description J k self w =
           (case description_boxes self k of
              None \<Rightarrow> Inl KeyError
            | Some content \<Rightarrow>
                Inr (self\<lparr>description_boxes := (description_boxes self)(k \<mapsto> [])\<rparr>, w)) \<and>
         (\<forall>self' w'. clear_description J k self w = Inr (self', w') \<longrightarrow>
            files w' = files w \<and> relay_descriptions self' = relay_descriptions self)"
proof (cases "description_boxes self k")
  case None
  then show ?thesis by (simp add: clear_description_None)
next
  case (Some content)
  then show ?thesis using assms by (simp add: clear_description_absent)
qed

text \<open>The theorem on a program with no description, beside a file that holds one.\<close>

theorem clear_description_absent_key_writes_nothing_witness:
  "map_of (relay_descriptions started) (Some ''A50285BI'') = None \<and>
   files pump_world DESCRIPTION_FILE = Some pump_text \<and>
   clear_description json_sample (Some ''A50285BI'') typed_app pump_world =
     Inr (started, pump_world)"
proof -
  have a: "map_of (relay_descriptions typed_app) (Some ''A50285BI'') = None"
    by (simp add: typed_app_def started_def)
  have a': "map_of (relay_descriptions started) (Some ''A50285BI'') = None"
    by (simp add: started_def)
  have f: "files pump_world DESCRIPTION_FILE = Some pump_text" by (simp add: pump_world_def)
  have b: "description_boxes typed_app (Some ''A50285BI'') =
             Some ([CHR 0x20, CHR 0x09] @ ''Pump relay '' @ [CHR 0x0A, CHR 0x0A])"
    by (simp add: typed_app_def)
  have u: "typed_app\<lparr>description_boxes :=
             (description_boxes typed_app)(Some ''A50285BI'' \<mapsto> [])\<rparr> = started"
    by (simp add: typed_app_def started_def)
  have "clear_description json_sample (Some ''A50285BI'') typed_app pump_world =
          Inr (started, pump_world)"
    using clear_description_absent_key_writes_nothing[OF a, of json_sample pump_world, THEN conjunct1] unfolding b u by simp
  then show ?thesis using a' f by simp
qed

end
